theory Spec2Isabelle
  imports Complex_Main
begin

section \<open>Python values, dictionaries and exceptions\<close>

text \<open>
  The values an email record can hold (\<open>Dict[str, Any]\<close>). The wrapper does two things
  with such a value: it tests its truth value (\<open>not text_content\<close>) and it takes its
  \<open>str()\<close>. \<open>PyObj s b\<close> stands for any other Python object, given by its \<open>str()\<close> and its
  truth value.
\<close>

datatype pyval = PyNone | PyBool bool | PyInt int | PyStr string | PyObj string bool

fun truthy :: "pyval \<Rightarrow> bool" where
  "truthy PyNone = False"
| "truthy (PyBool b) = b"
| "truthy (PyInt i) = (i \<noteq> 0)"
| "truthy (PyStr s) = (s \<noteq> [])"
| "truthy (PyObj s b) = b"

definition digit :: "nat \<Rightarrow> char" where
  "digit n = ''0123456789'' ! n"

fun show_nat :: "nat \<Rightarrow> string" where
  "show_nat n =
     (if n < 10 then [digit n]
      else show_nat (n div 10) @ [digit (n mod 10)])"

declare show_nat.simps [simp del]

definition show_int :: "int \<Rightarrow> string" where
  "show_int i = (if i < 0 then CHR ''-'' # show_nat (nat (- i)) else show_nat (nat i))"

fun py_str :: "pyval \<Rightarrow> string" where
  "py_str PyNone = ''None''"
| "py_str (PyBool b) = (if b then ''True'' else ''False'')"
| "py_str (PyInt i) = show_int i"
| "py_str (PyStr s) = s"
| "py_str (PyObj s b) = s"

text \<open>
  A dict is an association list in insertion order (\<open>items()\<close> walks it front to back);
  a well-formed dict has distinct keys.
\<close>

type_synonym 'v pydict = "(string \<times> 'v) list"

definition dict_get :: "'v pydict \<Rightarrow> string \<Rightarrow> 'v \<Rightarrow> 'v" where
  "dict_get d k dflt = (case map_of d k of None \<Rightarrow> dflt | Some v \<Rightarrow> v)"

type_synonym email = "pyval pydict"
type_synonym meta = "string pydict"
type_synonym embedding = "real list"
type_synonym handle = nat

text \<open>
  An exception is an instance of \<open>Exception\<close>, the class every handler of the manager
  catches: its class name and its \<open>str()\<close>. \<open>KeyboardInterrupt\<close> and \<open>SystemExit\<close>,
  which are not instances of \<open>Exception\<close>, are outside the model.
\<close>

datatype exn = PyExc (exn_class: string) (exn_str: string)

definition attribute_error :: "string \<Rightarrow> exn" where
  "attribute_error attr =
     PyExc ''AttributeError''
       ([CHR 0x27] @ ''NoneType'' @ [CHR 0x27] @ '' object has no attribute ''
        @ [CHR 0x27] @ attr @ [CHR 0x27])"

definition index_error :: exn where
  "index_error = PyExc ''IndexError'' ''list index out of range''"

definition not_subscriptable :: exn where
  "not_subscriptable =
     PyExc ''TypeError'' ([CHR 0x27] @ ''NoneType'' @ [CHR 0x27] @ '' object is not subscriptable'')"

section \<open>config.py\<close>

record config =
  GROQ_API_KEY :: "string option"
  GROQ_MODEL :: string
  VECTOR_DB_PATH :: string
  COLLECTION_NAME :: string
  EMBEDDING_MODEL :: string
  MAX_FILE_SIZE :: nat
  SUPPORTED_FORMATS :: "string list"
  PAGE_TITLE :: string
  PAGE_ICON :: string

text \<open>
  The module's constants; \<open>GROQ_API_KEY\<close> is what \<open>os.getenv\<close> finds in the environment.
  \<open>PAGE_ICON\<close> is the UTF-8 encoding of U+1F4E7.
\<close>

definition config_py :: "string option \<Rightarrow> config" where
  "config_py key =
     \<lparr> GROQ_API_KEY = key,
       GROQ_MODEL = ''llama3-8b-8192'',
       VECTOR_DB_PATH = ''./vector_db'',
       COLLECTION_NAME = ''email_collection'',
       EMBEDDING_MODEL = ''all-MiniLM-L6-v2'',
       MAX_FILE_SIZE = 100 * 1024 * 1024,
       SUPPORTED_FORMATS = [''.csv'', ''.json'', ''.txt'', ''.eml''],
       PAGE_TITLE = ''Email Analysis System'',
       PAGE_ICON = [CHR 0xF0, CHR 0x9F, CHR 0x93, CHR 0xA7] \<rparr>"

section \<open>The external collaborators\<close>

text \<open>
  Everything outside the wrapper (the embedding model, the vector store, the file system,
  \<open>uuid\<close>, standard output) is reached through calls. The state of the outside world is the
  history of the calls made so far, oldest first; what a call answers is a function of that
  history and of the call's arguments, given by an environment \<open>env\<close>. A call that raises
  answers \<open>Inl\<close>.
\<close>

record settings =
  anonymized_telemetry :: bool
  allow_reset :: bool

record query_result =
  documents :: "string list list option"
  metadatas :: "meta list list option"
  distances :: "real list list option"

datatype call =
    Uuid4
  | LoadModel string string
  | Encode handle "pyval list"
  | Makedirs string
  | PersistentClient string settings
  | GetCollection handle string
  | CreateCollection handle string meta
  | DeleteCollection handle string
  | Reset handle
  | CollAdd handle "embedding list" "pyval list" "meta list" "string list"
  | CollQuery handle "embedding list" int "string list"
  | CollCount handle
  | PathExists string
  | Rmtree string
  | Print string

type_synonym hist = "call list"

record env =
  uuid4_r :: "hist \<Rightarrow> string"
  load_model_r :: "hist \<Rightarrow> string \<Rightarrow> string \<Rightarrow> exn + handle"
  encode_r :: "hist \<Rightarrow> handle \<Rightarrow> pyval list \<Rightarrow> exn + embedding list"
  makedirs_r :: "hist \<Rightarrow> string \<Rightarrow> exn + unit"
  persistent_client_r :: "hist \<Rightarrow> string \<Rightarrow> settings \<Rightarrow> exn + handle"
  get_collection_r :: "hist \<Rightarrow> handle \<Rightarrow> string \<Rightarrow> exn + handle"
  create_collection_r :: "hist \<Rightarrow> handle \<Rightarrow> string \<Rightarrow> meta \<Rightarrow> exn + handle"
  delete_collection_r :: "hist \<Rightarrow> handle \<Rightarrow> string \<Rightarrow> exn + unit"
  reset_r :: "hist \<Rightarrow> handle \<Rightarrow> exn + unit"
  coll_add_r ::
    "hist \<Rightarrow> handle \<Rightarrow> embedding list \<Rightarrow> pyval list \<Rightarrow> meta list \<Rightarrow> string list \<Rightarrow> exn + unit"
  coll_query_r :: "hist \<Rightarrow> handle \<Rightarrow> embedding list \<Rightarrow> int \<Rightarrow> string list \<Rightarrow> exn + query_result"
  coll_count_r :: "hist \<Rightarrow> handle \<Rightarrow> exn + int"
  path_exists_r :: "hist \<Rightarrow> string \<Rightarrow> bool"
  rmtree_r :: "hist \<Rightarrow> string \<Rightarrow> exn + unit"

definition print :: "string \<Rightarrow> hist \<Rightarrow> hist" where
  "print s h = h @ [Print s]"

definition uuid4 :: "env \<Rightarrow> hist \<Rightarrow> string \<times> hist" where
  "uuid4 env h = (uuid4_r env h, h @ [Uuid4])"

definition encode :: "env \<Rightarrow> handle \<Rightarrow> pyval list \<Rightarrow> hist \<Rightarrow> (exn + embedding list) \<times> hist" where
  "encode env mdl docs h = (encode_r env h mdl docs, h @ [Encode mdl docs])"

text \<open>A method called on \<open>None\<close> raises \<open>AttributeError\<close> before anything leaves the wrapper.\<close>

definition coll_add ::
  "env \<Rightarrow> handle option \<Rightarrow> embedding list \<Rightarrow> pyval list \<Rightarrow> meta list \<Rightarrow> string list \<Rightarrow> hist
     \<Rightarrow> (exn + unit) \<times> hist" where
  "coll_add env c embs docs metas ids h =
     (case c of
        None \<Rightarrow> (Inl (attribute_error ''add''), h)
      | Some k \<Rightarrow> (coll_add_r env h k embs docs metas ids, h @ [CollAdd k embs docs metas ids]))"

section \<open>VectorDBManager\<close>

text \<open>
  The object's attributes. The model, the client and the collection are objects of the
  libraries, known by a handle; \<open>client\<close> and \<open>collection\<close> are \<open>None\<close> until
  \<open>_initialize_db\<close> sets them. The tests \<open>if self.collection\<close> and \<open>if self.client\<close> are
  false on \<open>None\<close> only: the libraries' objects define neither \<open>__bool__\<close> nor
  \<open>__len__\<close>.
\<close>

record manager =
  db_path :: string
  collection_name :: string
  embedding_model :: handle
  client :: "handle option"
  collection :: "handle option"

subsection \<open>add_emails\<close>

definition email_text :: "email \<Rightarrow> pyval" where
  "email_text email_data = dict_get email_data ''text_content'' (PyStr [])"

definition metadata_of :: "email \<Rightarrow> meta" where
  "metadata_of email_data =
     map (\<lambda>(k, v). (k, py_str v)) (filter (\<lambda>(k, v). k \<noteq> ''text_content'') email_data)"

text \<open>The \<open>for\<close> loop of \<open>add_emails\<close>, with the three lists it appends to.\<close>

fun prepare ::
  "env \<Rightarrow> email list \<Rightarrow> pyval list \<Rightarrow> meta list \<Rightarrow> string list \<Rightarrow> hist
     \<Rightarrow> pyval list \<times> meta list \<times> string list \<times> hist" where
  "prepare env [] docs metas ids h = (docs, metas, ids, h)"
| "prepare env (email_data # rest) docs metas ids h =
     (let text_content = email_text email_data in
      if \<not> truthy text_content then prepare env rest docs metas ids h
      else
        (let metadata = metadata_of email_data;
             (email_id, h') = uuid4 env h
         in prepare env rest (docs @ [text_content]) (metas @ [metadata]) (ids @ [email_id]) h'))"

definition added_message :: "nat \<Rightarrow> string" where
  "added_message n = ''Successfully added '' @ show_nat n @ '' emails to vector database''"

text \<open>The body of the \<open>try\<close> block.\<close>

definition add_emails_body :: "env \<Rightarrow> manager \<Rightarrow> email list \<Rightarrow> hist \<Rightarrow> (exn + bool) \<times> hist" where
  "add_emails_body env self emails h =
     (if emails = [] then (Inr False, h)
      else
        (case prepare env emails [] [] [] h of
           (docs, metas, ids, h1) \<Rightarrow>
             if docs = [] then (Inr False, h1)
             else
               (case encode env (embedding_model self) docs h1 of
                  (Inl e, h2) \<Rightarrow> (Inl e, h2)
                | (Inr embeddings, h2) \<Rightarrow>
                    (case coll_add env (collection self) embeddings docs metas ids h2 of
                       (Inl e, h3) \<Rightarrow> (Inl e, h3)
                     | (Inr u, h3) \<Rightarrow> (Inr True, print (added_message (length docs)) h3)))))"

definition add_emails :: "env \<Rightarrow> manager \<Rightarrow> email list \<Rightarrow> hist \<Rightarrow> (exn + bool) \<times> hist" where
  "add_emails env self emails h =
     (case add_emails_body env self emails h of
        (Inl e, h') \<Rightarrow>
          (Inr False, print (''Error adding emails to vector database: '' @ exn_str e) h')
      | (Inr b, h') \<Rightarrow> (Inr b, h'))"

subsection \<open>search_emails\<close>

record search_result =
  document :: string
  metadata :: meta
  distance :: real

definition and_then :: "exn + 'a \<Rightarrow> ('a \<Rightarrow> exn + 'b) \<Rightarrow> exn + 'b" where
  "and_then r f = (case r of Inl e \<Rightarrow> Inl e | Inr v \<Rightarrow> f v)"

definition subscript :: "'a option \<Rightarrow> exn + 'a" where
  "subscript v = (case v of None \<Rightarrow> Inl not_subscriptable | Some x \<Rightarrow> Inr x)"

definition py_index :: "'a list \<Rightarrow> nat \<Rightarrow> exn + 'a" where
  "py_index xs i = (if i < length xs then Inr (xs ! i) else Inl index_error)"

text \<open>\<open>results[key][0][i]\<close>, where \<open>results[key]\<close> may be \<open>None\<close>.\<close>

definition item_at :: "'a list list option \<Rightarrow> nat \<Rightarrow> exn + 'a" where
  "item_at field i =
     and_then (and_then (subscript field) (\<lambda>xss. py_index xss 0)) (\<lambda>xs. py_index xs i)"

definition result_at :: "query_result \<Rightarrow> nat \<Rightarrow> exn + search_result" where
  "result_at results i =
     and_then (item_at (documents results) i) (\<lambda>d.
     and_then (item_at (metadatas results) i) (\<lambda>m.
     and_then (item_at (distances results) i) (\<lambda>x.
       Inr \<lparr> document = d, metadata = m, distance = x \<rparr>)))"

fun format_loop ::
  "query_result \<Rightarrow> nat list \<Rightarrow> search_result list \<Rightarrow> exn + search_result list" where
  "format_loop results [] formatted_results = Inr formatted_results"
| "format_loop results (i # rest) formatted_results =
     (case result_at results i of
        Inl e \<Rightarrow> Inl e
      | Inr result \<Rightarrow> format_loop results rest (formatted_results @ [result]))"

definition format_results :: "query_result \<Rightarrow> exn + search_result list" where
  "format_results results =
     (case documents results of
        None \<Rightarrow> Inr []
      | Some [] \<Rightarrow> Inr []
      | Some (d0 # ds) \<Rightarrow>
          if d0 = [] then Inr [] else format_loop results [0..<length d0] [])"

definition include_fields :: "string list" where
  "include_fields = [''documents'', ''metadatas'', ''distances'']"

definition coll_query ::
  "env \<Rightarrow> handle \<Rightarrow> embedding list \<Rightarrow> int \<Rightarrow> string list \<Rightarrow> hist \<Rightarrow> (exn + query_result) \<times> hist" where
  "coll_query env k embs n incl h =
     (coll_query_r env h k embs n incl, h @ [CollQuery k embs n incl])"

definition search_emails_body ::
  "env \<Rightarrow> manager \<Rightarrow> string \<Rightarrow> int \<Rightarrow> hist \<Rightarrow> (exn + search_result list) \<times> hist" where
  "search_emails_body env self query n_results h =
     (case collection self of
        None \<Rightarrow> (Inr [], h)
      | Some k \<Rightarrow>
          (case encode env (embedding_model self) [PyStr query] h of
             (Inl e, h1) \<Rightarrow> (Inl e, h1)
           | (Inr query_embedding, h1) \<Rightarrow>
               (case coll_query env k query_embedding n_results include_fields h1 of
                  (Inl e, h2) \<Rightarrow> (Inl e, h2)
                | (Inr results, h2) \<Rightarrow> (format_results results, h2))))"

definition search_emails ::
  "env \<Rightarrow> manager \<Rightarrow> string \<Rightarrow> int \<Rightarrow> hist \<Rightarrow> (exn + search_result list) \<times> hist" where
  "search_emails env self query n_results h =
     (case search_emails_body env self query n_results h of
        (Inl e, h') \<Rightarrow> (Inr [], print (''Error searching emails: '' @ exn_str e) h')
      | (Inr rs, h') \<Rightarrow> (Inr rs, h'))"

text \<open>A call that leaves \<open>n_results\<close> out: the parameter's default is the literal 10.\<close>

definition search_emails_default ::
  "env \<Rightarrow> manager \<Rightarrow> string \<Rightarrow> hist \<Rightarrow> (exn + search_result list) \<times> hist" where
  "search_emails_default env self query h = search_emails env self query 10 h"

subsection \<open>get_collection_info\<close>

definition coll_count :: "env \<Rightarrow> handle \<Rightarrow> hist \<Rightarrow> (exn + int) \<times> hist" where
  "coll_count env k h = (coll_count_r env h k, h @ [CollCount k])"

definition get_collection_info_body ::
  "env \<Rightarrow> manager \<Rightarrow> hist \<Rightarrow> (exn + pyval pydict) \<times> hist" where
  "get_collection_info_body env self h =
     (case collection self of
        None \<Rightarrow> (Inr [], h)
      | Some k \<Rightarrow>
          (case coll_count env k h of
             (Inl e, h1) \<Rightarrow> (Inl e, h1)
           | (Inr count, h1) \<Rightarrow>
               (Inr [(''name'', PyStr (collection_name self)),
                     (''count'', PyInt count),
                     (''path'', PyStr (db_path self))], h1)))"

definition get_collection_info :: "env \<Rightarrow> manager \<Rightarrow> hist \<Rightarrow> (exn + pyval pydict) \<times> hist" where
  "get_collection_info env self h =
     (case get_collection_info_body env self h of
        (Inl e, h') \<Rightarrow> (Inr [], print (''Error getting collection info: '' @ exn_str e) h')
      | (Inr d, h') \<Rightarrow> (Inr d, h'))"

subsection \<open>The client's methods\<close>

definition collection_metadata :: meta where
  "collection_metadata = [(''description'', ''Email data collection'')]"

definition delete_collection :: "env \<Rightarrow> handle option \<Rightarrow> string \<Rightarrow> hist \<Rightarrow> (exn + unit) \<times> hist" where
  "delete_collection env c name h =
     (case c of
        None \<Rightarrow> (Inl (attribute_error ''delete_collection''), h)
      | Some cl \<Rightarrow> (delete_collection_r env h cl name, h @ [DeleteCollection cl name]))"

definition create_collection ::
  "env \<Rightarrow> handle option \<Rightarrow> string \<Rightarrow> meta \<Rightarrow> hist \<Rightarrow> (exn + handle) \<times> hist" where
  "create_collection env c name md h =
     (case c of
        None \<Rightarrow> (Inl (attribute_error ''create_collection''), h)
      | Some cl \<Rightarrow> (create_collection_r env h cl name md, h @ [CreateCollection cl name md]))"

definition get_collection :: "env \<Rightarrow> handle \<Rightarrow> string \<Rightarrow> hist \<Rightarrow> (exn + handle) \<times> hist" where
  "get_collection env cl name h = (get_collection_r env h cl name, h @ [GetCollection cl name])"

definition reset :: "env \<Rightarrow> handle \<Rightarrow> hist \<Rightarrow> (exn + unit) \<times> hist" where
  "reset env cl h = (reset_r env h cl, h @ [Reset cl])"

definition makedirs :: "env \<Rightarrow> string \<Rightarrow> hist \<Rightarrow> (exn + unit) \<times> hist" where
  "makedirs env path h = (makedirs_r env h path, h @ [Makedirs path])"

definition path_exists :: "env \<Rightarrow> string \<Rightarrow> hist \<Rightarrow> bool \<times> hist" where
  "path_exists env path h = (path_exists_r env h path, h @ [PathExists path])"

definition rmtree :: "env \<Rightarrow> string \<Rightarrow> hist \<Rightarrow> (exn + unit) \<times> hist" where
  "rmtree env path h = (rmtree_r env h path, h @ [Rmtree path])"

definition persistent_client :: "env \<Rightarrow> string \<Rightarrow> settings \<Rightarrow> hist \<Rightarrow> (exn + handle) \<times> hist" where
  "persistent_client env path st h =
     (persistent_client_r env h path st, h @ [PersistentClient path st])"

definition load_model :: "env \<Rightarrow> string \<Rightarrow> string \<Rightarrow> hist \<Rightarrow> (exn + handle) \<times> hist" where
  "load_model env name device h = (load_model_r env h name device, h @ [LoadModel name device])"

subsection \<open>clear_collection\<close>

text \<open>
  The method returns \<open>True\<close>, \<open>False\<close> or, when control reaches the end of the function
  without a \<open>return\<close>, Python's \<open>None\<close>: the result is a \<open>bool option\<close>.
\<close>

definition clear_collection_body ::
  "env \<Rightarrow> manager \<Rightarrow> hist \<Rightarrow> (exn + bool option) \<times> manager \<times> hist" where
  "clear_collection_body env self h =
     (case collection self of
        None \<Rightarrow> (Inr None, self, h)
      | Some k \<Rightarrow>
          (case delete_collection env (client self) (collection_name self) h of
             (Inl e, h1) \<Rightarrow> (Inl e, self, h1)
           | (Inr u, h1) \<Rightarrow>
               (case create_collection env (client self) (collection_name self)
                       collection_metadata h1 of
                  (Inl e, h2) \<Rightarrow> (Inl e, self, h2)
                | (Inr k', h2) \<Rightarrow> (Inr (Some True), self\<lparr>collection := Some k'\<rparr>, h2))))"

definition clear_collection ::
  "env \<Rightarrow> manager \<Rightarrow> hist \<Rightarrow> (exn + bool option) \<times> manager \<times> hist" where
  "clear_collection env self h =
     (case clear_collection_body env self h of
        (Inl e, self', h') \<Rightarrow>
          (Inr (Some False), self', print (''Error clearing collection: '' @ exn_str e) h')
      | (Inr r, self', h') \<Rightarrow> (Inr r, self', h'))"

subsection \<open>_initialize_db, the constructor and delete_database\<close>

definition client_settings :: settings where
  "client_settings = \<lparr> anonymized_telemetry = False, allow_reset = True \<rparr>"

definition initialize_db_body :: "env \<Rightarrow> manager \<Rightarrow> hist \<Rightarrow> (exn + unit) \<times> manager \<times> hist" where
  "initialize_db_body env self h =
     (case makedirs env (db_path self) h of
        (Inl e, h1) \<Rightarrow> (Inl e, self, h1)
      | (Inr u, h1) \<Rightarrow>
          (case persistent_client env (db_path self) client_settings h1 of
             (Inl e, h2) \<Rightarrow> (Inl e, self, h2)
           | (Inr cl, h2) \<Rightarrow>
               (let self1 = self\<lparr>client := Some cl\<rparr> in
                case get_collection env cl (collection_name self1) h2 of
                  (Inr k, h3) \<Rightarrow>
                    (Inr (), self1\<lparr>collection := Some k\<rparr>,
                     print (''Loaded existing collection: '' @ collection_name self1) h3)
                | (Inl e, h3) \<Rightarrow>
                    (case create_collection env (client self1) (collection_name self1)
                            collection_metadata h3 of
                       (Inl e', h4) \<Rightarrow> (Inl e', self1, h4)
                     | (Inr k, h4) \<Rightarrow>
                         (Inr (), self1\<lparr>collection := Some k\<rparr>,
                          print (''Created new collection: '' @ collection_name self1) h4)))))"

definition initialize_db :: "env \<Rightarrow> manager \<Rightarrow> hist \<Rightarrow> (exn + unit) \<times> manager \<times> hist" where
  "initialize_db env self h =
     (case initialize_db_body env self h of
        (Inl e, self', h') \<Rightarrow>
          (Inl (PyExc ''Exception'' (''Failed to initialize vector database: '' @ exn_str e)),
           self', h')
      | (Inr u, self', h') \<Rightarrow> (Inr u, self', h'))"

text \<open>\<open>VectorDBManager()\<close>: the constructor reads three constants of \<open>config.py\<close>.\<close>

definition init :: "config \<Rightarrow> env \<Rightarrow> hist \<Rightarrow> (exn + manager) \<times> hist" where
  "init cfg env h =
     (case load_model env (EMBEDDING_MODEL cfg) ''cpu'' h of
        (Inl e, h1) \<Rightarrow> (Inl e, h1)
      | (Inr mdl, h1) \<Rightarrow>
          (case initialize_db env
                  \<lparr> db_path = VECTOR_DB_PATH cfg, collection_name = COLLECTION_NAME cfg,
                    embedding_model = mdl, client = None, collection = None \<rparr> h1 of
             (Inl e, self', h2) \<Rightarrow> (Inl e, h2)
           | (Inr u, self', h2) \<Rightarrow> (Inr self', h2)))"

definition delete_database_body :: "env \<Rightarrow> manager \<Rightarrow> hist \<Rightarrow> (exn + bool) \<times> manager \<times> hist" where
  "delete_database_body env self h =
     (case (case client self of None \<Rightarrow> (Inr (), h) | Some cl \<Rightarrow> reset env cl h) of
        (Inl e, h1) \<Rightarrow> (Inl e, self, h1)
      | (Inr u, h1) \<Rightarrow>
          (case path_exists env (db_path self) h1 of
             (ex, h2) \<Rightarrow>
               (case (if ex then rmtree env (db_path self) h2 else (Inr (), h2)) of
                  (Inl e, h3) \<Rightarrow> (Inl e, self, h3)
                | (Inr u', h3) \<Rightarrow>
                    (case initialize_db env self h3 of
                       (Inl e, self', h4) \<Rightarrow> (Inl e, self', h4)
                     | (Inr u'', self', h4) \<Rightarrow> (Inr True, self', h4)))))"

definition delete_database :: "env \<Rightarrow> manager \<Rightarrow> hist \<Rightarrow> (exn + bool) \<times> manager \<times> hist" where
  "delete_database env self h =
     (case delete_database_body env self h of
        (Inl e, self', h') \<Rightarrow>
          (Inr False, self', print (''Error deleting database: '' @ exn_str e) h')
      | (Inr b, self', h') \<Rightarrow> (Inr b, self', h'))"

section \<open>Observing a run\<close>

text \<open>
  The test of the loop, \<open>if not text_content: continue\<close>, as a predicate on a record:
  the record is retained when the truth value of its \<open>text_content\<close> (or of the default
  \<open>''\<close>) is true.
\<close>

definition has_text :: "email \<Rightarrow> bool" where
  "has_text email_data = truthy (email_text email_data)"

text \<open>
  The answers to \<open>n\<close> consecutive \<open>uuid.uuid4()\<close> calls that start at history \<open>h\<close>.
\<close>

definition fresh_ids :: "env \<Rightarrow> hist \<Rightarrow> nat \<Rightarrow> string list" where
  "fresh_ids env h n = map (\<lambda>i. uuid4_r env (h @ replicate i Uuid4)) [0..<n]"

text \<open>The line the handler of \<open>add_emails\<close> prints.\<close>

definition error_message :: "exn \<Rightarrow> string" where
  "error_message e = ''Error adding emails to vector database: '' @ exn_str e"

text \<open>
  The runs of \<open>add_emails\<close> written out, one line per outcome, with the history each
  leaves; \<open>add_emails_eq\<close> below proves that the method behaves so.
\<close>

definition add_emails_run :: "env \<Rightarrow> manager \<Rightarrow> email list \<Rightarrow> hist \<Rightarrow> (exn + bool) \<times> hist" where
  "add_emails_run env self emails h =
     (let kept = filter has_text emails;
          docs = map email_text kept;
          metas = map metadata_of kept;
          ids = fresh_ids env h (length kept);
          h1 = h @ replicate (length kept) Uuid4;
          mdl = embedding_model self
      in if kept = [] then (Inr False, h)
         else
           (case encode_r env h1 mdl docs of
              Inl e \<Rightarrow> (Inr False, h1 @ [Encode mdl docs, Print (error_message e)])
            | Inr embs \<Rightarrow>
                (case collection self of
                   None \<Rightarrow>
                     (Inr False,
                      h1 @ [Encode mdl docs, Print (error_message (attribute_error ''add''))])
                 | Some k \<Rightarrow>
                     (case coll_add_r env (h1 @ [Encode mdl docs]) k embs docs metas ids of
                        Inl e \<Rightarrow>
                          (Inr False,
                           h1 @ [Encode mdl docs, CollAdd k embs docs metas ids,
                                 Print (error_message e)])
                      | Inr u \<Rightarrow>
                          (Inr True,
                           h1 @ [Encode mdl docs, CollAdd k embs docs metas ids,
                                 Print (added_message (length kept))])))))"

text \<open>The documents a call hands to the embedding model, and to the collection.\<close>

fun embedded_docs :: "call \<Rightarrow> pyval list" where
  "embedded_docs (Encode mdl docs) = docs"
| "embedded_docs c = []"

fun stored_docs :: "call \<Rightarrow> pyval list" where
  "stored_docs (CollAdd k embs docs metas ids) = docs"
| "stored_docs c = []"

text \<open>
  A test double for the collaborators, and sample records, for running the manager on
  concrete inputs: the store has no collection until one is created, every call succeeds,
  and a query answers two documents.
\<close>

definition stub_query_result :: query_result where
  "stub_query_result =
     \<lparr> documents = Some [[''hello world'', ''second'']],
       metadatas = Some [[[(''subject'', ''test'')], [(''size'', ''42'')]]],
       distances = Some [[0, 1 / 2]] \<rparr>"

definition stub_env :: env where
  "stub_env =
     \<lparr> uuid4_r = (\<lambda>h. replicate (Suc (length h)) CHR ''u''),
       load_model_r = (\<lambda>h name device. Inr 0),
       encode_r = (\<lambda>h mdl docs. Inr (map (\<lambda>d. [real (length (py_str d))]) docs)),
       makedirs_r = (\<lambda>h path. Inr ()),
       persistent_client_r = (\<lambda>h path st. Inr 1),
       get_collection_r = (\<lambda>h cl name. Inl (PyExc ''ValueError'' ''Collection does not exist'')),
       create_collection_r = (\<lambda>h cl name md. Inr 2),
       delete_collection_r = (\<lambda>h cl name. Inr ()),
       reset_r = (\<lambda>h cl. Inr ()),
       coll_add_r = (\<lambda>h k embs docs metas ids. Inr ()),
       coll_query_r = (\<lambda>h k embs n incl. Inr stub_query_result),
       coll_count_r = (\<lambda>h k. Inr 0),
       path_exists_r = (\<lambda>h path. True),
       rmtree_r = (\<lambda>h path. Inr ()) \<rparr>"

definition stub_manager :: manager where
  "stub_manager =
     \<lparr> db_path = ''./vector_db'', collection_name = ''email_collection'',
       embedding_model = 0, client = Some 1, collection = Some 2 \<rparr>"

definition sample_email_1 :: email where
  "sample_email_1 = [(''subject'', PyStr ''test''), (''text_content'', PyStr ''hello world'')]"

definition sample_email_2 :: email where
  "sample_email_2 = [(''text_content'', PyStr ''second''), (''size'', PyInt 42)]"

definition sample_email_no_text :: email where
  "sample_email_no_text = [(''subject'', PyStr ''no body'')]"

definition sample_email_empty_text :: email where
  "sample_email_empty_text = [(''text_content'', PyStr []), (''subject'', PyStr ''blank'')]"

text \<open>The line the handler of \<open>search_emails\<close> prints.\<close>

definition search_error_message :: "exn \<Rightarrow> string" where
  "search_error_message e = ''Error searching emails: '' @ exn_str e"

text \<open>Test doubles whose model, or whose store, raises; and a manager without client and collection.\<close>

definition failing_model_env :: env where
  "failing_model_env =
     stub_env\<lparr> encode_r := (\<lambda>h mdl docs. Inl (PyExc ''RuntimeError'' ''model failed'')) \<rparr>"

definition failing_store_env :: env where
  "failing_store_env =
     stub_env\<lparr> coll_query_r := (\<lambda>h k embs n incl. Inl (PyExc ''RuntimeError'' ''store failed'')),
               coll_count_r := (\<lambda>h k. Inl (PyExc ''RuntimeError'' ''store failed'')) \<rparr>"

definition uninitialized_manager :: manager where
  "uninitialized_manager = stub_manager\<lparr> client := None, collection := None \<rparr>"

text \<open>The line the handler of \<open>get_collection_info\<close> prints.\<close>

definition info_error_message :: "exn \<Rightarrow> string" where
  "info_error_message e = ''Error getting collection info: '' @ exn_str e"

text \<open>The line the handler of \<open>delete_database\<close> prints.\<close>

definition delete_error_message :: "exn \<Rightarrow> string" where
  "delete_error_message e = ''Error deleting database: '' @ exn_str e"

text \<open>A test double whose client refuses \<open>reset\<close>.\<close>

definition failing_reset_env :: env where
  "failing_reset_env = stub_env\<lparr> reset_r := (\<lambda>h cl. Inl (PyExc ''ValueError'' ''Resetting is not allowed'')) \<rparr>"

text \<open>A configuration that shares no value with \<open>config.py\<close>, and the manager built from it.\<close>

definition other_config :: config where
  "other_config =
     \<lparr> GROQ_API_KEY = Some ''key'',
       GROQ_MODEL = ''other-llm'',
       VECTOR_DB_PATH = ''/tmp/other_db'',
       COLLECTION_NAME = ''other_collection'',
       EMBEDDING_MODEL = ''other-model'',
       MAX_FILE_SIZE = 5,
       SUPPORTED_FORMATS = [],
       PAGE_TITLE = ''Other'',
       PAGE_ICON = ''!'' \<rparr>"

definition other_manager :: manager where
  "other_manager =
     \<lparr> db_path = ''/tmp/other_db'', collection_name = ''other_collection'',
       embedding_model = 0, client = Some 1, collection = Some 2 \<rparr>"

text \<open>The number of results a call asks of the collection.\<close>

fun query_limits :: "call \<Rightarrow> int list" where
  "query_limits (CollQuery k embs n incl) = [n]"
| "query_limits c = []"

section \<open>Properties of add_emails\<close>

lemma fresh_ids_Suc:
  "fresh_ids env h (Suc n) = uuid4_r env h # fresh_ids env (h @ [Uuid4]) n"
proof -
  have "[0..<Suc n] = 0 # map Suc [0..<n]"
    by (simp add: upt_conv_Cons map_Suc_upt del: upt_Suc)
  then show ?thesis
    by (simp add: fresh_ids_def comp_def del: upt_Suc)
qed

lemma prepare_eq:
  "prepare env emails docs metas ids h =
     (docs @ map email_text (filter has_text emails),
      metas @ map metadata_of (filter has_text emails),
      ids @ fresh_ids env h (length (filter has_text emails)),
      h @ replicate (length (filter has_text emails)) Uuid4)"
proof (induction emails arbitrary: docs metas ids h)
  case Nil
  show ?case by (simp add: fresh_ids_def)
next
  case (Cons e es)
  show ?case
  proof (cases "has_text e")
    case True
    then show ?thesis
      using Cons.IH by (simp add: has_text_def uuid4_def fresh_ids_Suc Let_def)
  next
    case False
    then show ?thesis
      using Cons.IH by (simp add: has_text_def)
  qed
qed

lemma add_emails_eq: "add_emails env self emails h = add_emails_run env self emails h"
proof (cases "filter has_text emails = []")
  case True
  then show ?thesis
    by (cases emails)
       (simp_all add: add_emails_def add_emails_body_def add_emails_run_def prepare_eq)
next
  case False
  then have ne: "emails \<noteq> []" by auto
  show ?thesis
    using False ne
    by (simp add: add_emails_def add_emails_body_def add_emails_run_def prepare_eq
          encode_def coll_add_def print_def error_message_def Let_def
          split: sum.splits option.splits)
qed

lemma absent_or_empty_no_text:
  "map_of r ''text_content'' = None \<or> map_of r ''text_content'' = Some (PyStr []) \<Longrightarrow> \<not> has_text r"
  by (auto simp: has_text_def email_text_def dict_get_def)

lemma add_emails_filter:
  "add_emails env self emails h = add_emails env self (filter has_text emails) h"
  by (simp add: add_emails_eq add_emails_run_def)

lemma new_calls_add_emails:
  "c \<in> set (drop (length h) (snd (add_emails env self emails h))) \<Longrightarrow>
   embedded_docs c = [] \<and> stored_docs c = [] \<or>
   embedded_docs c = map email_text (filter has_text emails) \<and> stored_docs c = [] \<or>
   embedded_docs c = [] \<and> stored_docs c = map email_text (filter has_text emails)"
  by (auto simp: add_emails_eq add_emails_run_def Let_def split: if_splits sum.splits option.splits)

text \<open>
  Claim C1. A record whose \<open>text_content\<close> is absent or the empty string is never embedded
  and never stored. Whatever surrounds it in the input, \<open>add_emails\<close> returns the same value
  and makes the same calls, with the same arguments, as on the input without that record;
  and every document that reaches the embedding model or the collection is the non-empty
  text of one of the other records.
\<close>

theorem add_emails_skips_records_without_text:
  assumes "map_of r ''text_content'' = None \<or> map_of r ''text_content'' = Some (PyStr [])"
  shows "add_emails env self (xs @ r # ys) h = add_emails env self (xs @ ys) h \<and>
         (\<forall>c \<in> set (drop (length h) (snd (add_emails env self (xs @ r # ys) h))).
            \<forall>d \<in> set (embedded_docs c) \<union> set (stored_docs c).
              truthy d \<and> d \<in> email_text ` set (xs @ ys))"
proof -
  have nt: "\<not> has_text r" using assms by (rule absent_or_empty_no_text)
  then have f: "filter has_text (xs @ r # ys) = filter has_text (xs @ ys)" by simp
  have eq: "add_emails env self (xs @ r # ys) h = add_emails env self (xs @ ys) h"
    using add_emails_filter [of env self "xs @ r # ys" h]
          add_emails_filter [of env self "xs @ ys" h] f by simp
  have "truthy d \<and> d \<in> email_text ` set (xs @ ys)"
    if c: "c \<in> set (drop (length h) (snd (add_emails env self (xs @ r # ys) h)))"
      and d: "d \<in> set (embedded_docs c) \<union> set (stored_docs c)" for c d
  proof -
    from new_calls_add_emails [OF c] d
    have "d \<in> set (map email_text (filter has_text (xs @ r # ys)))" by auto
    then have "d \<in> email_text ` {e \<in> set (xs @ ys). has_text e}"
      unfolding f by auto
    then show ?thesis by (auto simp: has_text_def)
  qed
  with eq show ?thesis by blast
qed

theorem add_emails_skips_records_without_text_witness:
  "add_emails stub_env stub_manager [sample_email_1, sample_email_no_text, sample_email_2] []
     = add_emails stub_env stub_manager [sample_email_1, sample_email_2] []
   \<and> add_emails stub_env stub_manager [sample_email_1, sample_email_empty_text, sample_email_2] []
     = add_emails stub_env stub_manager [sample_email_1, sample_email_2] []
   \<and> fst (add_emails stub_env stub_manager [sample_email_1, sample_email_2] []) = Inr True"
proof -
  have a: "map_of sample_email_no_text ''text_content'' = None"
    by (simp add: sample_email_no_text_def)
  have b: "map_of sample_email_empty_text ''text_content'' = Some (PyStr [])"
    by (simp add: sample_email_empty_text_def)
  have c: "fst (add_emails stub_env stub_manager [sample_email_1, sample_email_2] []) = Inr True"
    by (simp add: add_emails_eq add_emails_run_def has_text_def email_text_def dict_get_def
          sample_email_1_def sample_email_2_def stub_env_def stub_manager_def Let_def)
  show ?thesis
    using add_emails_skips_records_without_text
            [of sample_email_no_text stub_env stub_manager "[sample_email_1]" "[sample_email_2]" "[]"]
          add_emails_skips_records_without_text
            [of sample_email_empty_text stub_env stub_manager "[sample_email_1]" "[sample_email_2]" "[]"]
          a b c
    by simp
qed

text \<open>
  Claim C2. When no record of the input is retained (the input is empty, or every record
  lacks text), \<open>add_emails\<close> returns \<open>False\<close> and the history of calls is the one it
  started from: no \<open>uuid4\<close>, no \<open>encode\<close>, no \<open>collection.add\<close>, not even a \<open>print\<close>.
  What the store reports afterwards, its item count included, is what it reported before.
\<close>

theorem add_emails_nothing_retained:
  assumes "filter has_text emails = []"
  shows "add_emails env self emails h = (Inr False, h) \<and>
         get_collection_info env self (snd (add_emails env self emails h))
           = get_collection_info env self h"
  using assms by (simp add: add_emails_eq add_emails_run_def)

theorem add_emails_nothing_retained_witness:
  "add_emails stub_env stub_manager [] [CollCount 2] = (Inr False, [CollCount 2])
   \<and> add_emails stub_env stub_manager [sample_email_no_text, sample_email_empty_text] [CollCount 2]
       = (Inr False, [CollCount 2])"
proof -
  have a: "filter has_text [sample_email_no_text, sample_email_empty_text] = []"
    by (simp add: has_text_def email_text_def dict_get_def sample_email_no_text_def
          sample_email_empty_text_def)
  have b: "filter has_text [] = []" by simp
  show ?thesis
    using add_emails_nothing_retained [OF a, of stub_env stub_manager "[CollCount 2]"]
          add_emails_nothing_retained [OF b, of stub_env stub_manager "[CollCount 2]"]
    by simp
qed

lemma add_emails_success:
  assumes "fst (add_emails env self emails h) = Inr True"
  shows "\<exists>k embs.
           collection self = Some k \<and>
           encode_r env (h @ replicate (length (filter has_text emails)) Uuid4)
             (embedding_model self) (map email_text (filter has_text emails)) = Inr embs \<and>
           snd (add_emails env self emails h) =
             h @ replicate (length (filter has_text emails)) Uuid4 @
               [Encode (embedding_model self) (map email_text (filter has_text emails)),
                CollAdd k embs (map email_text (filter has_text emails))
                  (map metadata_of (filter has_text emails))
                  (fresh_ids env h (length (filter has_text emails))),
                Print (added_message (length (filter has_text emails)))]"
  using assms
  by (auto simp: add_emails_eq add_emails_run_def Let_def split: if_splits sum.splits option.splits)

lemma fresh_ids_length: "length (fresh_ids env h n) = n"
  by (simp add: fresh_ids_def)

lemma fresh_ids_nth: "i < n \<Longrightarrow> fresh_ids env h n ! i = uuid4_r env (h @ replicate i Uuid4)"
  by (simp add: fresh_ids_def)

lemma fresh_ids_distinct:
  assumes "inj_on (uuid4_r env) {h @ replicate i Uuid4 | i. i < n}"
  shows "distinct (fresh_ids env h n)"
proof -
  let ?g = "\<lambda>i. h @ replicate i Uuid4"
  have eq: "fresh_ids env h n = map (uuid4_r env \<circ> ?g) [0..<n]"
    by (simp add: fresh_ids_def comp_def)
  have inj: "inj_on ?g {0..<n}"
    by (rule inj_onI) (auto dest: arg_cong [where f = length])
  have s: "?g ` {0..<n} = {h @ replicate i Uuid4 | i. i < n}"
    by auto
  have "inj_on (uuid4_r env \<circ> ?g) {0..<n}"
    by (rule comp_inj_on [OF inj]) (simp only: s assms)
  then show ?thesis
    unfolding eq by (simp add: distinct_map)
qed

lemma map_of_metadata_of:
  "map_of (metadata_of e) key =
     (if key = ''text_content'' then None else map_option py_str (map_of e key))"
  unfolding metadata_of_def by (induction e) auto

lemma keys_metadata_of:
  "map fst (metadata_of e) = filter (\<lambda>k. k \<noteq> ''text_content'') (map fst e)"
  unfolding metadata_of_def by (induction e) auto

lemma kept_sample:
  "filter has_text [sample_email_1, sample_email_no_text, sample_email_2]
     = [sample_email_1, sample_email_2]"
  by (simp add: has_text_def email_text_def dict_get_def
        sample_email_1_def sample_email_2_def sample_email_no_text_def)

lemma fresh_ids_2:
  "fresh_ids env h (Suc (Suc 0)) = [uuid4_r env h, uuid4_r env (h @ [Uuid4])]"
  by (simp add: fresh_ids_def)

lemma meta_samples:
  "metadata_of sample_email_1 = [(''subject'', ''test'')]"
  "metadata_of sample_email_2 = [(''size'', ''42'')]"
  by (simp_all add: metadata_of_def sample_email_1_def sample_email_2_def show_int_def
        show_nat.simps digit_def)

lemma text_samples:
  "email_text sample_email_1 = PyStr ''hello world''"
  "email_text sample_email_2 = PyStr ''second''"
  by (simp_all add: email_text_def dict_get_def sample_email_1_def sample_email_2_def)

lemma msg2: "added_message (Suc (Suc 0)) = ''Successfully added 2 emails to vector database''"
  by (simp add: added_message_def show_nat.simps digit_def)

lemma sample_run:
    "add_emails stub_env stub_manager [sample_email_1, sample_email_no_text, sample_email_2] []
       = (Inr True,
          [Uuid4, Uuid4,
           Encode 0 [PyStr ''hello world'', PyStr ''second''],
           CollAdd 2 [[11], [6]] [PyStr ''hello world'', PyStr ''second'']
             [[(''subject'', ''test'')], [(''size'', ''42'')]] [''u'', ''uu''],
           Print ''Successfully added 2 emails to vector database''])"
  unfolding add_emails_eq add_emails_run_def kept_sample
  by (simp add: fresh_ids_2 meta_samples text_samples msg2 stub_env_def stub_manager_def Let_def)

lemma stub_uuid_inj:
  "inj_on (uuid4_r stub_env) {[] @ replicate i Uuid4 | i. i < length [''u'', ''uu'']}"
  by (rule inj_onI) (auto simp: stub_env_def)

text \<open>
  Claim C10. In a successful \<open>add_emails\<close> the collection receives one \<open>add\<close> call, whose
  lists of documents, metadata mappings and identifiers have the same length, one entry per
  retained record, in the order of the input: entry \<open>i\<close> of each list is built from the
  \<open>i\<close>-th retained record, the identifier being the answer to the \<open>uuid4\<close> call made in
  that record's turn of the loop.
\<close>

theorem add_emails_lists_aligned:
  assumes "fst (add_emails env self emails h) = Inr True"
  shows "\<exists>k embs docs metas ids.
           snd (add_emails env self emails h) =
             h @ replicate (length ids) Uuid4 @
               [Encode (embedding_model self) docs, CollAdd k embs docs metas ids,
                Print (added_message (length docs))] \<and>
           length docs = length (filter has_text emails) \<and>
           length metas = length docs \<and> length ids = length docs \<and>
           (\<forall>i < length docs.
              docs ! i = email_text (filter has_text emails ! i) \<and>
              metas ! i = metadata_of (filter has_text emails ! i) \<and>
              ids ! i = uuid4_r env (h @ replicate i Uuid4))"
proof -
  let ?kept = "filter has_text emails"
  from add_emails_success [OF assms] obtain k embs where
    run: "snd (add_emails env self emails h) =
            h @ replicate (length ?kept) Uuid4 @
              [Encode (embedding_model self) (map email_text ?kept),
               CollAdd k embs (map email_text ?kept) (map metadata_of ?kept)
                 (fresh_ids env h (length ?kept)),
               Print (added_message (length ?kept))]"
    by blast
  show ?thesis
    apply (rule exI [of _ k], rule exI [of _ embs])
    apply (rule exI [of _ "map email_text ?kept"], rule exI [of _ "map metadata_of ?kept"])
    apply (rule exI [of _ "fresh_ids env h (length ?kept)"])
    using run by (simp add: fresh_ids_length fresh_ids_nth)
qed

theorem add_emails_lists_aligned_witness:
  "fst (add_emails stub_env stub_manager [sample_email_1, sample_email_no_text, sample_email_2] [])
     = Inr True \<and>
   snd (add_emails stub_env stub_manager [sample_email_1, sample_email_no_text, sample_email_2] [])
     = [Uuid4, Uuid4,
        Encode 0 [PyStr ''hello world'', PyStr ''second''],
        CollAdd 2 [[11], [6]] [PyStr ''hello world'', PyStr ''second'']
          [[(''subject'', ''test'')], [(''size'', ''42'')]] [''u'', ''uu''],
        Print ''Successfully added 2 emails to vector database''] \<and>
   (\<exists>k embs docs metas ids.
      snd (add_emails stub_env stub_manager
             [sample_email_1, sample_email_no_text, sample_email_2] []) =
        [] @ replicate (length ids) Uuid4 @
          [Encode (embedding_model stub_manager) docs, CollAdd k embs docs metas ids,
           Print (added_message (length docs))] \<and>
      length docs = length (filter has_text [sample_email_1, sample_email_no_text, sample_email_2]) \<and>
      length metas = length docs \<and> length ids = length docs \<and>
      (\<forall>i < length docs.
         docs ! i = email_text (filter has_text [sample_email_1, sample_email_no_text, sample_email_2] ! i) \<and>
         metas ! i = metadata_of (filter has_text [sample_email_1, sample_email_no_text, sample_email_2] ! i) \<and>
         ids ! i = uuid4_r stub_env ([] @ replicate i Uuid4)))"
proof -
  have ok:
    "fst (add_emails stub_env stub_manager
            [sample_email_1, sample_email_no_text, sample_email_2] []) = Inr True"
    by (simp add: sample_run)
  have run:
    "snd (add_emails stub_env stub_manager [sample_email_1, sample_email_no_text, sample_email_2] [])
     = [Uuid4, Uuid4,
        Encode 0 [PyStr ''hello world'', PyStr ''second''],
        CollAdd 2 [[11], [6]] [PyStr ''hello world'', PyStr ''second'']
          [[(''subject'', ''test'')], [(''size'', ''42'')]] [''u'', ''uu''],
        Print ''Successfully added 2 emails to vector database'']"
    by (simp add: sample_run)
  show ?thesis
    using ok run add_emails_lists_aligned [OF ok] by (intro conjI)
qed

text \<open>
  Claim C8. In a successful \<open>add_emails\<close> the item stored for the \<open>i\<close>-th retained record
  has: as identifier the answer to a \<open>uuid4\<close> call of its own (so the identifiers are
  pairwise distinct whenever the generator does not repeat itself over those calls); as
  embedding the model's output for the batch of retained texts, which is the embedding of
  the record's text when the model embeds text by text; and as metadata the mapping whose
  keys are the record's keys other than \<open>text_content\<close>, in order, each with the \<open>str()\<close>
  of the record's value.
\<close>

theorem add_emails_stored_items:
  assumes "fst (add_emails env self emails h) = Inr True"
  shows "\<exists>k embs docs metas ids.
           snd (add_emails env self emails h) =
             h @ replicate (length ids) Uuid4 @
               [Encode (embedding_model self) docs, CollAdd k embs docs metas ids,
                Print (added_message (length docs))] \<and>
           encode_r env (h @ replicate (length ids) Uuid4) (embedding_model self) docs = Inr embs \<and>
           docs = map email_text (filter has_text emails) \<and>
           length metas = length docs \<and> length ids = length docs \<and>
           (\<forall>i < length (filter has_text emails).
              ids ! i = uuid4_r env (h @ replicate i Uuid4) \<and>
              (\<forall>key. map_of (metas ! i) key =
                 (if key = ''text_content'' then None
                  else map_option py_str (map_of (filter has_text emails ! i) key))) \<and>
              map fst (metas ! i) =
                filter (\<lambda>key. key \<noteq> ''text_content'') (map fst (filter has_text emails ! i))) \<and>
           (\<forall>f. embs = map f docs \<longrightarrow>
              (\<forall>i < length (filter has_text emails).
                 embs ! i = f (email_text (filter has_text emails ! i)))) \<and>
           (inj_on (uuid4_r env) {h @ replicate i Uuid4 | i. i < length ids} \<longrightarrow> distinct ids)"
proof -
  let ?kept = "filter has_text emails"
  from add_emails_success [OF assms] obtain k embs where
    enc: "encode_r env (h @ replicate (length ?kept) Uuid4) (embedding_model self)
            (map email_text ?kept) = Inr embs"
    and run: "snd (add_emails env self emails h) =
            h @ replicate (length ?kept) Uuid4 @
              [Encode (embedding_model self) (map email_text ?kept),
               CollAdd k embs (map email_text ?kept) (map metadata_of ?kept)
                 (fresh_ids env h (length ?kept)),
               Print (added_message (length ?kept))]"
    by blast
  have items: "\<forall>i < length ?kept.
      fresh_ids env h (length ?kept) ! i = uuid4_r env (h @ replicate i Uuid4) \<and>
      (\<forall>key. map_of (map metadata_of ?kept ! i) key =
         (if key = ''text_content'' then None
          else map_option py_str (map_of (?kept ! i) key))) \<and>
      map fst (map metadata_of ?kept ! i) =
        filter (\<lambda>key. key \<noteq> ''text_content'') (map fst (?kept ! i))"
    by (simp add: fresh_ids_nth map_of_metadata_of keys_metadata_of)
  have embs: "\<forall>f. embs = map f (map email_text ?kept) \<longrightarrow>
      (\<forall>i < length ?kept. embs ! i = f (email_text (?kept ! i)))"
    by simp
  have uniq: "inj_on (uuid4_r env)
        {h @ replicate i Uuid4 | i. i < length (fresh_ids env h (length ?kept))} \<longrightarrow>
      distinct (fresh_ids env h (length ?kept))"
    using fresh_ids_distinct [of env h "length ?kept"] by (simp add: fresh_ids_length)
  show ?thesis
    apply (rule exI [of _ k], rule exI [of _ embs])
    apply (rule exI [of _ "map email_text ?kept"], rule exI [of _ "map metadata_of ?kept"])
    apply (rule exI [of _ "fresh_ids env h (length ?kept)"])
    apply (intro conjI)
    subgoal using run by (simp add: fresh_ids_length)
    subgoal using enc by (simp add: fresh_ids_length)
    subgoal by simp
    subgoal by simp
    subgoal by (simp add: fresh_ids_length)
    subgoal using items by blast
    subgoal using embs by blast
    subgoal using uniq by blast
    done
qed

theorem add_emails_stored_items_witness:
  "fst (add_emails stub_env stub_manager [sample_email_1, sample_email_no_text, sample_email_2] [])
     = Inr True \<and>
   snd (add_emails stub_env stub_manager [sample_email_1, sample_email_no_text, sample_email_2] [])
     = [Uuid4, Uuid4,
        Encode 0 [PyStr ''hello world'', PyStr ''second''],
        CollAdd 2 [[11], [6]] [PyStr ''hello world'', PyStr ''second'']
          [[(''subject'', ''test'')], [(''size'', ''42'')]] [''u'', ''uu''],
        Print ''Successfully added 2 emails to vector database''] \<and>
   [[11], [6]] = map (\<lambda>d. [real (length (py_str d))]) [PyStr ''hello world'', PyStr ''second''] \<and>
   inj_on (uuid4_r stub_env) {[] @ replicate i Uuid4 | i. i < length [''u'', ''uu'']} \<and>
   (\<exists>k embs docs metas ids.
      snd (add_emails stub_env stub_manager
             [sample_email_1, sample_email_no_text, sample_email_2] []) =
        [] @ replicate (length ids) Uuid4 @
          [Encode (embedding_model stub_manager) docs, CollAdd k embs docs metas ids,
           Print (added_message (length docs))] \<and>
      encode_r stub_env ([] @ replicate (length ids) Uuid4) (embedding_model stub_manager) docs
        = Inr embs \<and>
      docs = map email_text (filter has_text [sample_email_1, sample_email_no_text, sample_email_2]) \<and>
      length metas = length docs \<and> length ids = length docs \<and>
      (\<forall>i < length (filter has_text [sample_email_1, sample_email_no_text, sample_email_2]).
         ids ! i = uuid4_r stub_env ([] @ replicate i Uuid4) \<and>
         (\<forall>key. map_of (metas ! i) key =
            (if key = ''text_content'' then None
             else map_option py_str
                    (map_of (filter has_text [sample_email_1, sample_email_no_text, sample_email_2] ! i) key))) \<and>
         map fst (metas ! i) =
           filter (\<lambda>key. key \<noteq> ''text_content'')
             (map fst (filter has_text [sample_email_1, sample_email_no_text, sample_email_2] ! i))) \<and>
      (\<forall>f. embs = map f docs \<longrightarrow>
         (\<forall>i < length (filter has_text [sample_email_1, sample_email_no_text, sample_email_2]).
            embs ! i = f (email_text (filter has_text [sample_email_1, sample_email_no_text, sample_email_2] ! i)))) \<and>
      (inj_on (uuid4_r stub_env) {[] @ replicate i Uuid4 | i. i < length ids} \<longrightarrow> distinct ids))"
proof -
  have ok:
    "fst (add_emails stub_env stub_manager
            [sample_email_1, sample_email_no_text, sample_email_2] []) = Inr True"
    by (simp add: sample_run)
  have run:
    "snd (add_emails stub_env stub_manager [sample_email_1, sample_email_no_text, sample_email_2] [])
     = [Uuid4, Uuid4,
        Encode 0 [PyStr ''hello world'', PyStr ''second''],
        CollAdd 2 [[11], [6]] [PyStr ''hello world'', PyStr ''second'']
          [[(''subject'', ''test'')], [(''size'', ''42'')]] [''u'', ''uu''],
        Print ''Successfully added 2 emails to vector database'']"
    by (simp add: sample_run)
  have enc: "[[11], [6]] = map (\<lambda>d. [real (length (py_str d))]) [PyStr ''hello world'', PyStr ''second'']"
    by simp
  show ?thesis
    using ok run enc stub_uuid_inj add_emails_stored_items [OF ok] by (intro conjI)
qed

section \<open>Properties of search_emails\<close>

lemma item_at_first:
  "i < length x0 \<Longrightarrow> item_at (Some (x0 # xs)) i = Inr (x0 ! i)"
  by (simp add: item_at_def and_then_def subscript_def py_index_def)

lemma result_at_ok:
  assumes "documents results = Some (d0 # ds)" "metadatas results = Some (m0 # ms)"
    and "distances results = Some (x0 # xs)"
    and "i < length d0" "i < length m0" "i < length x0"
  shows "result_at results i = Inr \<lparr> document = d0 ! i, metadata = m0 ! i, distance = x0 ! i \<rparr>"
  using assms by (simp add: result_at_def item_at_first and_then_def)

lemma format_loop_ok:
  assumes "documents results = Some (d0 # ds)" "metadatas results = Some (m0 # ms)"
    and "distances results = Some (x0 # xs)"
    and "\<forall>i \<in> set js. i < length d0 \<and> i < length m0 \<and> i < length x0"
  shows "format_loop results js acc =
           Inr (acc @ map (\<lambda>i. \<lparr> document = d0 ! i, metadata = m0 ! i, distance = x0 ! i \<rparr>) js)"
  using assms(4)
proof (induction js arbitrary: acc)
  case Nil
  show ?case by simp
next
  case (Cons j js)
  then show ?case
    using result_at_ok [OF assms(1-3), of j] by simp
qed

lemma zip3_nth:
  assumes "length d0 \<le> length m0" "length d0 \<le> length x0"
  shows "map (\<lambda>i. f (d0 ! i) (m0 ! i) (x0 ! i)) [0..<length d0] =
         map (\<lambda>(d, m, x). f d m x) (zip d0 (zip m0 x0))"
  using assms by (intro nth_equalityI) simp_all

lemma format_results_ok:
  assumes "documents results = Some (d0 # ds)" "metadatas results = Some (m0 # ms)"
    and "distances results = Some (x0 # xs)"
    and "length d0 \<le> length m0" "length d0 \<le> length x0"
  shows "format_results results =
           Inr (map (\<lambda>(d, m, x). \<lparr> document = d, metadata = m, distance = x \<rparr>)
                  (zip d0 (zip m0 x0)))"
proof (cases "d0 = []")
  case True
  then show ?thesis using assms(1) by (simp add: format_results_def)
next
  case False
  have "format_loop results [0..<length d0] [] =
          Inr ([] @ map (\<lambda>i. \<lparr> document = d0 ! i, metadata = m0 ! i, distance = x0 ! i \<rparr>)
                      [0..<length d0])"
    using assms(4,5) by (intro format_loop_ok [OF assms(1-3)]) auto
  then show ?thesis
    using False assms(1) zip3_nth [OF assms(4,5), of "\<lambda>d m x. \<lparr> document = d, metadata = m, distance = x \<rparr>"]
    by (simp add: format_results_def)
qed

lemma search_emails_body_query:
  assumes "collection self = Some k"
    and "encode_r env h (embedding_model self) [PyStr query] = Inr qe"
    and "coll_query_r env (h @ [Encode (embedding_model self) [PyStr query]]) k qe n
           include_fields = Inr results"
  shows "search_emails_body env self query n h =
           (format_results results,
            h @ [Encode (embedding_model self) [PyStr query], CollQuery k qe n include_fields])"
  using assms by (simp add: search_emails_body_def encode_def coll_query_def)

text \<open>
  Claim C5. A search on an initialized manager embeds the query, asks the collection for
  \<open>n\<close> results with that embedding, and returns the store's answer as a sequence of
  (document, metadata, distance) records in the order the store gave them: the \<open>i\<close>-th
  result is made of the \<open>i\<close>-th document, metadata and distance of the answer, and nothing
  is sorted. The results therefore ascend by distance when the store's distances do, which
  is the store's part. A call without a limit is the call with limit 10. The store's answer
  is taken to have a distance and a metadata for every document.
\<close>

theorem search_emails_store_order:
  assumes "collection self = Some k"
    and "encode_r env h (embedding_model self) [PyStr query] = Inr qe"
    and "coll_query_r env (h @ [Encode (embedding_model self) [PyStr query]]) k qe n
           include_fields = Inr results"
    and "documents results = Some (d0 # ds)" "metadatas results = Some (m0 # ms)"
    and "distances results = Some (x0 # xs)"
    and "length d0 \<le> length m0" "length d0 \<le> length x0"
    and "sorted x0"
  shows "search_emails env self query n h =
           (Inr (map (\<lambda>(d, m, x). \<lparr> document = d, metadata = m, distance = x \<rparr>)
                   (zip d0 (zip m0 x0))),
            h @ [Encode (embedding_model self) [PyStr query], CollQuery k qe n include_fields]) \<and>
         sorted (map distance
                   (map (\<lambda>(d, m, x). \<lparr> document = d, metadata = m, distance = x \<rparr>)
                      (zip d0 (zip m0 x0)))) \<and>
         search_emails_default env self query h = search_emails env self query 10 h"
proof -
  have run: "search_emails env self query n h =
           (Inr (map (\<lambda>(d, m, x). \<lparr> document = d, metadata = m, distance = x \<rparr>)
                   (zip d0 (zip m0 x0))),
            h @ [Encode (embedding_model self) [PyStr query], CollQuery k qe n include_fields])"
    by (simp add: search_emails_def search_emails_body_query [OF assms(1-3)]
          format_results_ok [OF assms(4-8)])
  have "map distance (map (\<lambda>(d, m, x). \<lparr> document = d, metadata = m, distance = x \<rparr>)
                        (zip d0 (zip m0 x0))) = take (length d0) x0"
    using assms(7,8) by (intro nth_equalityI) simp_all
  moreover have "sorted (take (length d0) x0)"
    using assms(9) by (rule sorted_wrt_take)
  ultimately show ?thesis
    using run by (simp add: search_emails_default_def)
qed

theorem search_emails_store_order_witness:
  "search_emails stub_env stub_manager ''hello world'' 2 [] =
     (Inr [\<lparr> document = ''hello world'', metadata = [(''subject'', ''test'')], distance = 0 \<rparr>,
           \<lparr> document = ''second'', metadata = [(''size'', ''42'')], distance = 1 / 2 \<rparr>],
      [Encode 0 [PyStr ''hello world''], CollQuery 2 [[11]] 2 include_fields]) \<and>
   sorted (map distance
     [\<lparr> document = ''hello world'', metadata = [(''subject'', ''test'')], distance = 0 \<rparr>,
      \<lparr> document = ''second'', metadata = [(''size'', ''42'')], distance = 1 / 2 \<rparr>]) \<and>
   search_emails_default stub_env stub_manager ''hello world'' [] =
     search_emails stub_env stub_manager ''hello world'' 10 []"
proof -
  have c: "collection stub_manager = Some 2" by (simp add: stub_manager_def)
  have e: "encode_r stub_env [] (embedding_model stub_manager) [PyStr ''hello world''] = Inr [[11]]"
    by (simp add: stub_env_def)
  have q: "coll_query_r stub_env ([] @ [Encode (embedding_model stub_manager) [PyStr ''hello world'']])
             2 [[11]] 2 include_fields = Inr stub_query_result"
    by (simp add: stub_env_def)
  have d: "documents stub_query_result = Some ([''hello world'', ''second''] # [])"
    by (simp add: stub_query_result_def)
  have m: "metadatas stub_query_result = Some ([[(''subject'', ''test'')], [(''size'', ''42'')]] # [])"
    by (simp add: stub_query_result_def)
  have x: "distances stub_query_result = Some ([0, 1 / 2] # [])"
    by (simp add: stub_query_result_def)
  have l1: "length [''hello world'', ''second''] \<le> length [[(''subject'', ''test'')], [(''size'', ''42'')]]"
    by simp
  have l2: "length [''hello world'', ''second''] \<le> length [0, 1 / 2 :: real]"
    by simp
  have s: "sorted [0, 1 / 2 :: real]" by simp
  show ?thesis
    using search_emails_store_order [OF c e q d m x l1 l2 s]
    by (simp add: stub_manager_def)
qed

text \<open>
  Claim C4. \<open>search_emails\<close> always returns a sequence, never an exception. On a manager
  without a collection it returns the empty sequence and calls nothing; when the embedding
  model raises, or the collection's query raises, or building the results raises, the
  handler prints the error and the empty sequence is returned.
\<close>

theorem search_emails_never_raises:
  "(\<exists>rs. fst (search_emails env self query n h) = Inr rs) \<and>
   (collection self = None \<longrightarrow> search_emails env self query n h = (Inr [], h)) \<and>
   (\<forall>k e. collection self = Some k \<and>
           encode_r env h (embedding_model self) [PyStr query] = Inl e \<longrightarrow>
      search_emails env self query n h =
        (Inr [], h @ [Encode (embedding_model self) [PyStr query],
                      Print (search_error_message e)])) \<and>
   (\<forall>k qe e. collection self = Some k \<and>
           encode_r env h (embedding_model self) [PyStr query] = Inr qe \<and>
           coll_query_r env (h @ [Encode (embedding_model self) [PyStr query]]) k qe n
             include_fields = Inl e \<longrightarrow>
      search_emails env self query n h =
        (Inr [], h @ [Encode (embedding_model self) [PyStr query],
                      CollQuery k qe n include_fields, Print (search_error_message e)])) \<and>
   (\<forall>e. fst (search_emails_body env self query n h) = Inl e \<longrightarrow>
      fst (search_emails env self query n h) = Inr [])"
proof (intro conjI allI impI)
  show "\<exists>rs. fst (search_emails env self query n h) = Inr rs"
    by (simp add: search_emails_def split: prod.splits sum.splits)
next
  assume "collection self = None"
  then show "search_emails env self query n h = (Inr [], h)"
    by (simp add: search_emails_def search_emails_body_def)
next
  fix k e
  assume "collection self = Some k \<and>
          encode_r env h (embedding_model self) [PyStr query] = Inl e"
  then show "search_emails env self query n h =
        (Inr [], h @ [Encode (embedding_model self) [PyStr query],
                      Print (search_error_message e)])"
    by (simp add: search_emails_def search_emails_body_def encode_def print_def
          search_error_message_def)
next
  fix k qe e
  assume "collection self = Some k \<and>
           encode_r env h (embedding_model self) [PyStr query] = Inr qe \<and>
           coll_query_r env (h @ [Encode (embedding_model self) [PyStr query]]) k qe n
             include_fields = Inl e"
  then show "search_emails env self query n h =
        (Inr [], h @ [Encode (embedding_model self) [PyStr query],
                      CollQuery k qe n include_fields, Print (search_error_message e)])"
    by (simp add: search_emails_def search_emails_body_def encode_def coll_query_def print_def
          search_error_message_def)
next
  fix e
  assume "fst (search_emails_body env self query n h) = Inl e"
  then show "fst (search_emails env self query n h) = Inr []"
    by (cases "search_emails_body env self query n h") (simp add: search_emails_def)
qed

theorem search_emails_never_raises_witness:
  "search_emails stub_env uninitialized_manager ''hello'' 10 [] = (Inr [], []) \<and>
   search_emails failing_model_env stub_manager ''hello'' 10 [] =
     (Inr [], [Encode 0 [PyStr ''hello''], Print ''Error searching emails: model failed'']) \<and>
   search_emails failing_store_env stub_manager ''hello'' 10 [] =
     (Inr [], [Encode 0 [PyStr ''hello''], CollQuery 2 [[5]] 10 include_fields,
               Print ''Error searching emails: store failed''])"
proof -
  have a: "collection uninitialized_manager = None"
    by (simp add: uninitialized_manager_def)
  have b: "collection stub_manager = Some 2 \<and>
           encode_r failing_model_env [] (embedding_model stub_manager) [PyStr ''hello'']
             = Inl (PyExc ''RuntimeError'' ''model failed'')"
    by (simp add: stub_manager_def failing_model_env_def)
  have c: "collection stub_manager = Some 2 \<and>
           encode_r failing_store_env [] (embedding_model stub_manager) [PyStr ''hello'']
             = Inr [[5]] \<and>
           coll_query_r failing_store_env ([] @ [Encode (embedding_model stub_manager) [PyStr ''hello'']])
             2 [[5]] 10 include_fields = Inl (PyExc ''RuntimeError'' ''store failed'')"
    by (simp add: stub_manager_def failing_store_env_def stub_env_def)
  show ?thesis
    using a b c
      search_emails_never_raises [of stub_env uninitialized_manager "''hello''" 10 "[]"]
      search_emails_never_raises [of failing_model_env stub_manager "''hello''" 10 "[]"]
      search_emails_never_raises [of failing_store_env stub_manager "''hello''" 10 "[]"]
    by (simp add: search_error_message_def stub_manager_def)
qed

section \<open>Properties of get_collection_info, clear_collection and delete_database\<close>

text \<open>
  Claim C6. \<open>get_collection_info\<close> always returns a mapping, never an exception: with a
  collection whose \<open>count()\<close> answers, the mapping with exactly the keys \<open>name\<close>, \<open>count\<close>
  and \<open>path\<close>, holding the collection's name, the count the store reported and the storage
  path; without a collection the empty mapping, with no call made; and when \<open>count()\<close>
  raises, the empty mapping after the error is printed.
\<close>

theorem get_collection_info_total:
  "(\<exists>d. fst (get_collection_info env self h) = Inr d) \<and>
   (collection self = None \<longrightarrow> get_collection_info env self h = (Inr [], h)) \<and>
   (\<forall>k count. collection self = Some k \<and> coll_count_r env h k = Inr count \<longrightarrow>
      get_collection_info env self h =
        (Inr [(''name'', PyStr (collection_name self)), (''count'', PyInt count),
              (''path'', PyStr (db_path self))],
         h @ [CollCount k])) \<and>
   (\<forall>k e. collection self = Some k \<and> coll_count_r env h k = Inl e \<longrightarrow>
      get_collection_info env self h =
        (Inr [], h @ [CollCount k, Print (info_error_message e)]))"
proof (intro conjI allI impI)
  show "\<exists>d. fst (get_collection_info env self h) = Inr d"
    by (cases "get_collection_info_body env self h")
       (simp add: get_collection_info_def split: sum.splits)
next
  assume "collection self = None"
  then show "get_collection_info env self h = (Inr [], h)"
    by (simp add: get_collection_info_def get_collection_info_body_def)
next
  fix k count
  assume "collection self = Some k \<and> coll_count_r env h k = Inr count"
  then show "get_collection_info env self h =
        (Inr [(''name'', PyStr (collection_name self)), (''count'', PyInt count),
              (''path'', PyStr (db_path self))],
         h @ [CollCount k])"
    by (simp add: get_collection_info_def get_collection_info_body_def coll_count_def)
next
  fix k e
  assume "collection self = Some k \<and> coll_count_r env h k = Inl e"
  then show "get_collection_info env self h =
        (Inr [], h @ [CollCount k, Print (info_error_message e)])"
    by (simp add: get_collection_info_def get_collection_info_body_def coll_count_def
          print_def info_error_message_def)
qed

theorem get_collection_info_total_witness:
  "get_collection_info stub_env uninitialized_manager [] = (Inr [], []) \<and>
   get_collection_info stub_env stub_manager [] =
     (Inr [(''name'', PyStr ''email_collection''), (''count'', PyInt 0),
           (''path'', PyStr ''./vector_db'')],
      [CollCount 2]) \<and>
   get_collection_info failing_store_env stub_manager [] =
     (Inr [], [CollCount 2, Print ''Error getting collection info: store failed''])"
proof -
  have a: "collection uninitialized_manager = None"
    by (simp add: uninitialized_manager_def)
  have b: "collection stub_manager = Some 2 \<and> coll_count_r stub_env [] 2 = Inr 0"
    by (simp add: stub_manager_def stub_env_def)
  have c: "collection stub_manager = Some 2 \<and>
           coll_count_r failing_store_env [] 2 = Inl (PyExc ''RuntimeError'' ''store failed'')"
    by (simp add: stub_manager_def failing_store_env_def)
  show ?thesis
    using a b c
      get_collection_info_total [of stub_env uninitialized_manager "[]"]
      get_collection_info_total [of stub_env stub_manager "[]"]
      get_collection_info_total [of failing_store_env stub_manager "[]"]
    by (simp add: info_error_message_def stub_manager_def)
qed

text \<open>
  Claim C3 does not hold of the code. On a manager without a collection the \<open>if\<close> of
  \<open>clear_collection\<close> is not entered and the function ends without a \<open>return\<close>: the
  result is \<open>None\<close>, which is neither \<open>True\<close> nor \<open>False\<close>, although the method is
  annotated \<open>-> bool\<close>, and nothing is deleted or recreated.
\<close>

theorem clear_collection_uninitialized_returns_None:
  "clear_collection stub_env uninitialized_manager [] = (Inr None, uninitialized_manager, [])"
  by (simp add: clear_collection_def clear_collection_body_def uninitialized_manager_def)

text \<open>
  With a collection, the result is a boolean.
\<close>

lemma clear_collection_initialized:
  assumes "collection self = Some k"
  shows "\<exists>b. fst (clear_collection env self h) = Inr (Some b)"
  using assms
  by (auto simp: clear_collection_def clear_collection_body_def
        split: prod.splits sum.splits)

lemma initialize_db_created:
  assumes "makedirs_r env h (db_path self) = Inr ()"
    and "persistent_client_r env (h @ [Makedirs (db_path self)]) (db_path self) client_settings
           = Inr cl"
    and "get_collection_r env
           (h @ [Makedirs (db_path self), PersistentClient (db_path self) client_settings])
           cl (collection_name self) = Inl e"
    and "create_collection_r env
           (h @ [Makedirs (db_path self), PersistentClient (db_path self) client_settings,
                 GetCollection cl (collection_name self)])
           cl (collection_name self) collection_metadata = Inr k"
  shows "initialize_db env self h =
           (Inr (), self\<lparr>client := Some cl, collection := Some k\<rparr>,
            h @ [Makedirs (db_path self), PersistentClient (db_path self) client_settings,
                 GetCollection cl (collection_name self),
                 CreateCollection cl (collection_name self) collection_metadata,
                 Print (''Created new collection: '' @ collection_name self)])"
  using assms
  by (simp add: initialize_db_def initialize_db_body_def makedirs_def persistent_client_def
        get_collection_def create_collection_def print_def Let_def)

lemma delete_database_returns:
  "\<exists>b. fst (delete_database env self h) = Inr b"
  by (cases "delete_database_body env self h")
     (auto simp: delete_database_def split: sum.splits)

lemma delete_database_error:
  "fst (delete_database_body env self h) = Inl e \<Longrightarrow> fst (delete_database env self h) = Inr False"
  by (cases "delete_database_body env self h") (simp add: delete_database_def)

lemma delete_database_success:
  assumes "fst (delete_database_body env self h) = Inr b"
  shows "fst (delete_database env self h) = Inr True"
proof -
  have "b = True"
    using assms
    by (auto simp: delete_database_body_def split: prod.splits sum.splits option.splits if_splits)
  then show ?thesis
    using assms by (cases "delete_database_body env self h") (simp add: delete_database_def)
qed

text \<open>
  Claim C7. \<open>delete_database\<close> always returns a boolean, never an exception: \<open>False\<close>
  when anything in its body raises, \<open>True\<close> otherwise. When the client's \<open>reset\<close> raises,
  nothing is removed. On a manager with a client and an existing storage directory, when
  every step succeeds and the wiped store has no collection to load, the calls are, in this
  order: the client's \<open>reset\<close>, the existence test and the removal of the storage
  directory, then the reinitialization, which makes the directory again, opens a new client
  on it and creates the collection under its name with the descriptive metadata; the
  manager ends holding the new client and the new collection.
\<close>

theorem delete_database_order:
  "(\<exists>b. fst (delete_database env self h) = Inr b) \<and>
   (\<forall>e. fst (delete_database_body env self h) = Inl e \<longrightarrow>
      fst (delete_database env self h) = Inr False) \<and>
   (\<forall>b. fst (delete_database_body env self h) = Inr b \<longrightarrow>
      fst (delete_database env self h) = Inr True) \<and>
   (\<forall>cl e. client self = Some cl \<and> reset_r env h cl = Inl e \<longrightarrow>
      delete_database env self h =
        (Inr False, self, h @ [Reset cl, Print (delete_error_message e)])) \<and>
   (\<forall>cl cl' e k.
      client self = Some cl \<and>
      reset_r env h cl = Inr () \<and>
      path_exists_r env (h @ [Reset cl]) (db_path self) \<and>
      rmtree_r env (h @ [Reset cl, PathExists (db_path self)]) (db_path self) = Inr () \<and>
      makedirs_r env (h @ [Reset cl, PathExists (db_path self), Rmtree (db_path self)])
        (db_path self) = Inr () \<and>
      persistent_client_r env
        (h @ [Reset cl, PathExists (db_path self), Rmtree (db_path self),
              Makedirs (db_path self)])
        (db_path self) client_settings = Inr cl' \<and>
      get_collection_r env
        (h @ [Reset cl, PathExists (db_path self), Rmtree (db_path self),
              Makedirs (db_path self), PersistentClient (db_path self) client_settings])
        cl' (collection_name self) = Inl e \<and>
      create_collection_r env
        (h @ [Reset cl, PathExists (db_path self), Rmtree (db_path self),
              Makedirs (db_path self), PersistentClient (db_path self) client_settings,
              GetCollection cl' (collection_name self)])
        cl' (collection_name self) collection_metadata = Inr k \<longrightarrow>
      delete_database env self h =
        (Inr True, self\<lparr>client := Some cl', collection := Some k\<rparr>,
         h @ [Reset cl, PathExists (db_path self), Rmtree (db_path self),
              Makedirs (db_path self), PersistentClient (db_path self) client_settings,
              GetCollection cl' (collection_name self),
              CreateCollection cl' (collection_name self) collection_metadata,
              Print (''Created new collection: '' @ collection_name self)]))"
proof (intro conjI allI impI)
  show "\<exists>b. fst (delete_database env self h) = Inr b"
    by (rule delete_database_returns)
next
  fix e
  assume "fst (delete_database_body env self h) = Inl e"
  then show "fst (delete_database env self h) = Inr False"
    by (rule delete_database_error)
next
  fix b
  assume "fst (delete_database_body env self h) = Inr b"
  then show "fst (delete_database env self h) = Inr True"
    by (rule delete_database_success)
next
  fix cl e
  assume "client self = Some cl \<and> reset_r env h cl = Inl e"
  then show "delete_database env self h =
        (Inr False, self, h @ [Reset cl, Print (delete_error_message e)])"
    by (simp add: delete_database_def delete_database_body_def reset_def print_def
          delete_error_message_def)
next
  fix cl cl' e k
  let ?p = "db_path self"
  let ?h3 = "h @ [Reset cl, PathExists ?p, Rmtree ?p]"
  assume a: "client self = Some cl \<and>
      reset_r env h cl = Inr () \<and>
      path_exists_r env (h @ [Reset cl]) (db_path self) \<and>
      rmtree_r env (h @ [Reset cl, PathExists (db_path self)]) (db_path self) = Inr () \<and>
      makedirs_r env (h @ [Reset cl, PathExists (db_path self), Rmtree (db_path self)])
        (db_path self) = Inr () \<and>
      persistent_client_r env
        (h @ [Reset cl, PathExists (db_path self), Rmtree (db_path self),
              Makedirs (db_path self)])
        (db_path self) client_settings = Inr cl' \<and>
      get_collection_r env
        (h @ [Reset cl, PathExists (db_path self), Rmtree (db_path self),
              Makedirs (db_path self), PersistentClient (db_path self) client_settings])
        cl' (collection_name self) = Inl e \<and>
      create_collection_r env
        (h @ [Reset cl, PathExists (db_path self), Rmtree (db_path self),
              Makedirs (db_path self), PersistentClient (db_path self) client_settings,
              GetCollection cl' (collection_name self)])
        cl' (collection_name self) collection_metadata = Inr k"
  have i: "initialize_db env self ?h3 =
           (Inr (), self\<lparr>client := Some cl', collection := Some k\<rparr>,
            ?h3 @ [Makedirs ?p, PersistentClient ?p client_settings,
                 GetCollection cl' (collection_name self),
                 CreateCollection cl' (collection_name self) collection_metadata,
                 Print (''Created new collection: '' @ collection_name self)])"
    using a by (intro initialize_db_created) simp_all
  have b: "delete_database_body env self h =
             (case initialize_db env self ?h3 of
                (Inl e, self', h4) \<Rightarrow> (Inl e, self', h4)
              | (Inr u, self', h4) \<Rightarrow> (Inr True, self', h4))"
    using a by (simp add: delete_database_body_def reset_def path_exists_def rmtree_def)
  show "delete_database env self h =
        (Inr True, self\<lparr>client := Some cl', collection := Some k\<rparr>,
         h @ [Reset cl, PathExists (db_path self), Rmtree (db_path self),
              Makedirs (db_path self), PersistentClient (db_path self) client_settings,
              GetCollection cl' (collection_name self),
              CreateCollection cl' (collection_name self) collection_metadata,
              Print (''Created new collection: '' @ collection_name self)])"
    unfolding delete_database_def b i by simp
qed

theorem delete_database_order_witness:
  "delete_database stub_env stub_manager [] =
     (Inr True, stub_manager,
      [Reset 1, PathExists ''./vector_db'', Rmtree ''./vector_db'', Makedirs ''./vector_db'',
       PersistentClient ''./vector_db'' client_settings,
       GetCollection 1 ''email_collection'',
       CreateCollection 1 ''email_collection'' collection_metadata,
       Print ''Created new collection: email_collection'']) \<and>
   delete_database failing_reset_env stub_manager [] =
     (Inr False, stub_manager, [Reset 1, Print ''Error deleting database: Resetting is not allowed''])"
proof -
  have a: "client stub_manager = Some 1 \<and>
           reset_r failing_reset_env [] 1 = Inl (PyExc ''ValueError'' ''Resetting is not allowed'')"
    by (simp add: stub_manager_def failing_reset_env_def)
  have b: "client stub_manager = Some 1 \<and> db_path stub_manager = ''./vector_db'' \<and>
           collection_name stub_manager = ''email_collection'' \<and>
           stub_manager\<lparr>client := Some 1, collection := Some 2\<rparr> = stub_manager"
    by (simp add: stub_manager_def)
  have c: "reset_r stub_env h cl = Inr () \<and> path_exists_r stub_env h p \<and>
           rmtree_r stub_env h p = Inr () \<and> makedirs_r stub_env h p = Inr () \<and>
           persistent_client_r stub_env h p st = Inr 1 \<and>
           get_collection_r stub_env h cl n = Inl (PyExc ''ValueError'' ''Collection does not exist'') \<and>
           create_collection_r stub_env h cl n md = Inr 2" for h cl p st n md
    by (simp add: stub_env_def)
  show ?thesis
    using a b c
      delete_database_order [of failing_reset_env stub_manager "[]"]
      delete_database_order [of stub_env stub_manager "[]"]
    by (simp add: delete_error_message_def)
qed

section \<open>The configuration\<close>

lemma initialize_db_fields:
  "initialize_db env self h = (r, self', h') \<Longrightarrow>
     db_path self' = db_path self \<and> collection_name self' = collection_name self \<and>
     embedding_model self' = embedding_model self"
  by (auto simp: initialize_db_def initialize_db_body_def Let_def
        split: prod.splits sum.splits)

lemma init_fields:
  assumes "fst (init cfg env h) = Inr self"
  shows "db_path self = VECTOR_DB_PATH cfg \<and> collection_name self = COLLECTION_NAME cfg \<and>
         load_model_r env h (EMBEDDING_MODEL cfg) ''cpu'' = Inr (embedding_model self)"
proof (cases "load_model_r env h (EMBEDDING_MODEL cfg) ''cpu''")
  case (Inl e)
  then show ?thesis using assms by (simp add: init_def load_model_def)
next
  case (Inr mdl)
  let ?m0 = "\<lparr> db_path = VECTOR_DB_PATH cfg, collection_name = COLLECTION_NAME cfg,
               embedding_model = mdl, client = None, collection = None \<rparr>"
  let ?h1 = "h @ [LoadModel (EMBEDDING_MODEL cfg) ''cpu'']"
  obtain r self' h' where i: "initialize_db env ?m0 ?h1 = (r, self', h')"
    by (cases "initialize_db env ?m0 ?h1") auto
  from initialize_db_fields [OF i] have f:
    "db_path self' = VECTOR_DB_PATH cfg \<and> collection_name self' = COLLECTION_NAME cfg \<and>
     embedding_model self' = mdl"
    by simp
  have "self = self'"
    using assms Inr i by (simp add: init_def load_model_def split: sum.splits)
  then show ?thesis using f Inr by simp
qed

lemma search_default_limits:
  "c \<in> set (drop (length h) (snd (search_emails_default env self query h))) \<Longrightarrow>
   n \<in> set (query_limits c) \<Longrightarrow> n = 10"
  by (auto simp: search_emails_default_def search_emails_def search_emails_body_def
        encode_def coll_query_def print_def
        split: option.splits sum.splits prod.splits)

lemma init_config_py:
  "init (config_py key) stub_env [] =
     (Inr stub_manager,
      [LoadModel ''all-MiniLM-L6-v2'' ''cpu'', Makedirs ''./vector_db'',
       PersistentClient ''./vector_db'' client_settings,
       GetCollection 1 ''email_collection'',
       CreateCollection 1 ''email_collection'' collection_metadata,
       Print ''Created new collection: email_collection''])"
  by (simp add: init_def load_model_def initialize_db_def initialize_db_body_def makedirs_def
        persistent_client_def get_collection_def create_collection_def print_def Let_def
        config_py_def stub_env_def stub_manager_def)

lemma init_other_config:
  "init other_config stub_env [] =
     (Inr other_manager,
      [LoadModel ''other-model'' ''cpu'', Makedirs ''/tmp/other_db'',
       PersistentClient ''/tmp/other_db'' client_settings,
       GetCollection 1 ''other_collection'',
       CreateCollection 1 ''other_collection'' collection_metadata,
       Print ''Created new collection: other_collection''])"
  by (simp add: init_def load_model_def initialize_db_def initialize_db_body_def makedirs_def
        persistent_client_def get_collection_def create_collection_def print_def Let_def
        other_config_def stub_env_def other_manager_def)

lemma format_stub_query_result:
  "format_results stub_query_result =
     Inr [\<lparr> document = ''hello world'', metadata = [(''subject'', ''test'')], distance = 0 \<rparr>,
          \<lparr> document = ''second'', metadata = [(''size'', ''42'')], distance = 1 / 2 \<rparr>]"
proof -
  have "format_results stub_query_result =
          Inr (map (\<lambda>(d, m, x). \<lparr> document = d, metadata = m, distance = x \<rparr>)
                 (zip [''hello world'', ''second'']
                    (zip [[(''subject'', ''test'')], [(''size'', ''42'')]] [0, 1 / 2])))"
    by (rule format_results_ok [where ds = "[]" and ms = "[]" and xs = "[]"])
       (simp_all add: stub_query_result_def)
  then show ?thesis by simp
qed

lemma search_default_stub:
  assumes "collection self = Some 2" "embedding_model self = 0"
  shows "snd (search_emails_default stub_env self ''hello'' []) =
     [Encode 0 [PyStr ''hello''], CollQuery 2 [[5]] 10 include_fields]"
proof -
  have "search_emails_body stub_env self ''hello'' 10 [] =
          (format_results stub_query_result,
           [] @ [Encode (embedding_model self) [PyStr ''hello''],
                 CollQuery 2 [[5]] 10 include_fields])"
    using assms by (intro search_emails_body_query) (simp_all add: stub_env_def)
  then show ?thesis
    using assms(2)
    by (simp add: search_emails_default_def search_emails_def format_stub_query_result)
qed

text \<open>
  Claim C9 does not hold as stated: the configuration holds no result limit. A manager
  built from \<open>config.py\<close> and a manager built from a configuration that differs from it
  in every value both ask the collection for 10 results in a search without a limit, and
  10 is no value of either configuration.
\<close>

theorem default_limit_not_configured:
  "fst (init (config_py None) stub_env []) = Inr stub_manager \<and>
   fst (init other_config stub_env []) = Inr other_manager \<and>
   snd (search_emails_default stub_env stub_manager ''hello'' []) =
     [Encode 0 [PyStr ''hello''], CollQuery 2 [[5]] 10 include_fields] \<and>
   snd (search_emails_default stub_env other_manager ''hello'' []) =
     [Encode 0 [PyStr ''hello''], CollQuery 2 [[5]] 10 include_fields] \<and>
   MAX_FILE_SIZE (config_py None) = 104857600 \<and>
   MAX_FILE_SIZE other_config = 5"
  by (simp add: init_config_py init_other_config search_default_stub)
     (simp add: config_py_def other_config_def stub_manager_def other_manager_def
        search_default_stub)

text \<open>
  Claim C9, amended. The constructor reads three values of the configuration: the storage
  path and the collection name, which it keeps, and the embedding model's name, which it
  loads; two configurations that agree on these three construct the same manager. The
  default limit of a search is not among them: a search without a limit is the search with
  limit 10, under every configuration, and every query it sends to the collection asks for
  10 results.
\<close>

theorem constructor_reads_three_settings:
  "(\<forall>self. fst (init cfg env h) = Inr self \<longrightarrow>
      db_path self = VECTOR_DB_PATH cfg \<and> collection_name self = COLLECTION_NAME cfg \<and>
      load_model_r env h (EMBEDDING_MODEL cfg) ''cpu'' = Inr (embedding_model self)) \<and>
   (\<forall>cfg' :: config. VECTOR_DB_PATH cfg' = VECTOR_DB_PATH cfg \<and>
           COLLECTION_NAME cfg' = COLLECTION_NAME cfg \<and>
           EMBEDDING_MODEL cfg' = EMBEDDING_MODEL cfg \<longrightarrow>
      init cfg' env h = init cfg env h) \<and>
   (\<forall>self query h'.
      search_emails_default env self query h' = search_emails env self query 10 h' \<and>
      (\<forall>c \<in> set (drop (length h') (snd (search_emails_default env self query h'))).
         \<forall>n \<in> set (query_limits c). n = 10))"
proof (intro conjI allI impI ballI)
  fix self
  assume a: "fst (init cfg env h) = Inr self"
  show "db_path self = VECTOR_DB_PATH cfg" using init_fields [OF a] by simp
  show "collection_name self = COLLECTION_NAME cfg" using init_fields [OF a] by simp
  show "load_model_r env h (EMBEDDING_MODEL cfg) ''cpu'' = Inr (embedding_model self)"
    using init_fields [OF a] by simp
next
  fix cfg' :: config
  assume a: "VECTOR_DB_PATH cfg' = VECTOR_DB_PATH cfg \<and>
           COLLECTION_NAME cfg' = COLLECTION_NAME cfg \<and>
           EMBEDDING_MODEL cfg' = EMBEDDING_MODEL cfg"
  have p: "VECTOR_DB_PATH cfg' = VECTOR_DB_PATH cfg" using a by simp
  have c: "COLLECTION_NAME cfg' = COLLECTION_NAME cfg" using a by simp
  have m: "EMBEDDING_MODEL cfg' = EMBEDDING_MODEL cfg" using a by simp
  show "init cfg' env h = init cfg env h"
    unfolding init_def p c m by (rule refl)
next
  fix self query h'
  show "search_emails_default env self query h' = search_emails env self query 10 h'"
    by (simp add: search_emails_default_def)
next
  fix self query h' c n
  assume "c \<in> set (drop (length h') (snd (search_emails_default env self query h')))"
    and "n \<in> set (query_limits c)"
  then show "n = 10" by (rule search_default_limits)
qed

theorem constructor_reads_three_settings_witness:
  "fst (init (config_py None) stub_env []) = Inr stub_manager \<and>
   db_path stub_manager = VECTOR_DB_PATH (config_py None) \<and>
   collection_name stub_manager = COLLECTION_NAME (config_py None) \<and>
   load_model_r stub_env [] (EMBEDDING_MODEL (config_py None)) ''cpu''
     = Inr (embedding_model stub_manager) \<and>
   init (config_py (Some ''key'')) stub_env [] = init (config_py None) stub_env [] \<and>
   search_emails_default stub_env stub_manager ''hello'' [] =
     search_emails stub_env stub_manager ''hello'' 10 [] \<and>
   CollQuery 2 [[5]] 10 include_fields
     \<in> set (drop (length []) (snd (search_emails_default stub_env stub_manager ''hello'' [])))"
proof -
  have a: "fst (init (config_py None) stub_env []) = Inr stub_manager"
    by (simp add: init_config_py)
  have b: "VECTOR_DB_PATH (config_py (Some ''key'')) = VECTOR_DB_PATH (config_py None) \<and>
           COLLECTION_NAME (config_py (Some ''key'')) = COLLECTION_NAME (config_py None) \<and>
           EMBEDDING_MODEL (config_py (Some ''key'')) = EMBEDDING_MODEL (config_py None)"
    by (simp add: config_py_def)
  have c: "CollQuery 2 [[5]] 10 include_fields
     \<in> set (drop (length []) (snd (search_emails_default stub_env stub_manager ''hello'' [])))"
    by (simp add: search_default_stub stub_manager_def)
  show ?thesis
    using a b c constructor_reads_three_settings [of "config_py None" stub_env "[]"]
    by blast
qed

end
